theory Spec2Isabelle
  imports Complex_Main
begin

section \<open>Python values and exceptions\<close>

text \<open>
  The layer is a Python class. Exceptions are values of \<open>py_error\<close>; a call that may raise
  returns \<open>py_error + 'a\<close>, with \<open>Inl\<close> for the exception.
\<close>

datatype py_error =
    ValueError string
  | TypeError string
  | NameError string
  | IndexError string
  | InvalidArgumentError string

text \<open>
  Python numbers: \<open>float\<close> is idealised as \<open>real\<close> (no rounding, no NaN), \<open>int\<close> is
  unbounded. \<open>num_val\<close> is the value a number has in tensor arithmetic.
\<close>

datatype py_number = PyFloat real | PyInt int

fun num_val :: "py_number \<Rightarrow> real" where
  "num_val (PyFloat r) = r"
| "num_val (PyInt i) = of_int i"

datatype py_value = Num py_number | Str string | NoneValue

section \<open>Tensors of the host framework\<close>

text \<open>
  A tensor is a shape and its entries in row-major order. The layer uses two operations of
  the host: multiplication of a tensor by a scalar, and \<open>+\<close> on two tensors. For operands of
  equal shape \<open>+\<close> is entrywise. For operands of different shape the host broadcasts them
  or raises an error of its own; what it does there is the parameter \<open>broadcast\<close>.
\<close>

datatype tensor = Tensor (shape: "nat list") (elems: "real list")


definition tensor_scale :: "real \<Rightarrow> tensor \<Rightarrow> tensor" where
  "tensor_scale c t = Tensor (shape t) (map (\<lambda>v. c * v) (elems t))"

type_synonym host_add = "tensor \<Rightarrow> tensor \<Rightarrow> py_error + tensor"

definition tensor_add :: "host_add \<Rightarrow> tensor \<Rightarrow> tensor \<Rightarrow> py_error + tensor" where
  "tensor_add broadcast a b =
     (if shape a = shape b
      then Inr (Tensor (shape a) (map2 (\<lambda>u v. u + v) (elems a) (elems b)))
      else broadcast a b)"

section \<open>State of the host framework\<close>

text \<open>
  The host owns a global random generator and a global learning phase. The generator is an
  infinite supply of uniform samples from the interval from 0 (included) to 1 (excluded),
  and \<open>position\<close> counts the samples consumed so far.
\<close>

record host =
  samples :: "nat \<Rightarrow> real"
  position :: nat
  learning_phase :: bool

definition valid_samples :: "host \<Rightarrow> bool" where
  "valid_samples h \<longleftrightarrow> (\<forall>n. 0 \<le> samples h n \<and> samples h n < 1)"

text \<open>
  \<open>tf.keras.backend.random_binomial([], p)\<close> belongs to the host, which computes it as
  \<^verbatim>\<open>where(random_uniform([]) <= p, ones([]), zeros([]))\<close>: it consumes one uniform sample
  \<open>u\<close> and is 1 when \<open>u \<le> p\<close>, else 0.
\<close>

definition random_binomial :: "host \<Rightarrow> real \<Rightarrow> real \<times> host" where
  "random_binomial h p =
     ((if samples h (position h) \<le> p then 1 else 0), h\<lparr>position := Suc (position h)\<rparr>)"

text \<open>
  \<open>tf.keras.backend.in_train_phase(x, alt, training)\<close>: with \<open>training=None\<close> the host's
  learning phase decides, otherwise the flag does; \<open>x\<close> is run in training, \<open>alt\<close> otherwise.
\<close>

definition train_phase :: "bool option \<Rightarrow> host \<Rightarrow> bool" where
  "train_phase training h = (case training of None \<Rightarrow> learning_phase h | Some t \<Rightarrow> t)"

definition in_train_phase :: "(unit \<Rightarrow> 'a) \<Rightarrow> (unit \<Rightarrow> 'a) \<Rightarrow> bool option \<Rightarrow> host \<Rightarrow> 'a" where
  "in_train_phase x alt training h = (if train_phase training h then x () else alt ())"

section \<open>The layer\<close>

text \<open>
  A \<open>StochasticDepth\<close> instance holds \<open>survival_probability\<close> and the part of the instance
  that belongs to the base class \<open>tf.keras.layers.Layer\<close>, of a type \<open>'b\<close> left to the host.
\<close>

record 'b layer =
  survival_probability :: py_number
  base :: 'b

text \<open>What \<open>call\<close> may receive as \<open>x\<close>: one tensor, a list of tensors or a tuple of tensors.\<close>

datatype py_input = Single tensor | PyList "tensor list" | PyTuple "tensor list"

fun isinstance_list :: "py_input \<Rightarrow> bool" where
  "isinstance_list (PyList xs) = True"
| "isinstance_list _ = False"

fun items :: "py_input \<Rightarrow> tensor list" where
  "items (PyList xs) = xs"
| "items (PyTuple xs) = xs"
| "items (Single t) = [t]"

text \<open>
  \<open>StochasticDepth.call\<close>. The source writes its two checks as
  \<^verbatim>\<open>assert isinstance(x, list): raise ValueError("Input must be a list")\<close> and
  \<^verbatim>\<open>assert len(x) == 2: raise ValueError("Input must have exactly two entries")\<close>;
  each is read as the guard it spells out: when the condition fails, the \<open>ValueError\<close> is
  raised. The Bernoulli variable is drawn after the checks and before the mode is selected.
  The first argument is the host's \<open>+\<close> on tensors of different shape.
\<close>

definition call ::
  "host_add \<Rightarrow> 'b layer \<Rightarrow> py_input \<Rightarrow> bool option \<Rightarrow> host \<Rightarrow> (py_error + tensor) \<times> host" where
  "call broadcast self x training h =
     (if \<not> isinstance_list x then (Inl (ValueError ''Input must be a list''), h)
      else if length (items x) \<noteq> 2
        then (Inl (ValueError ''Input must have exactly two entries''), h)
      else
        let shortcut = items x ! 0;
            residual = items x ! 1;
            (b_l, h') = random_binomial h (num_val (survival_probability self));
            call_train = (\<lambda>_. tensor_add broadcast shortcut (tensor_scale b_l residual));
            call_test = (\<lambda>_. tensor_add broadcast shortcut
                            (tensor_scale (num_val (survival_probability self)) residual))
        in (in_train_phase call_train call_test training h', h'))"

text \<open>
  \<open>StochasticDepth.__init__\<close> is decorated with typeguard's \<open>typechecked\<close> and annotates
  \<open>survival_probability: float\<close>. typeguard checks that annotation with
  \<^verbatim>\<open>isinstance(value, (float, int))\<close> (an \<open>int\<close> is accepted where a \<open>float\<close> is expected) and
  raises \<open>TypeError\<close> otherwise.
\<close>

fun typechecked_float :: "py_value \<Rightarrow> py_error + py_number" where
  "typechecked_float (Num n) = Inr n"
| "typechecked_float _ =
     Inl (TypeError ''type of argument survival_probability must be either float or int'')"

text \<open>
  Keyword arguments and configurations are Python dictionaries with string keys.
  \<open>super().__init__(**kwargs)\<close> and \<open>super().get_config()\<close> belong to the host's base class;
  they are the parameters \<open>base_init\<close> and \<open>base_get_config\<close>. In \<open>init\<close> the argument
  \<open>None\<close> stands for a call that does not pass \<open>survival_probability\<close>, so that the default
  0.5 applies. The type check comes first, then the base class, then the assignment.
\<close>

type_synonym kwargs = "string \<rightharpoonup> py_value"

definition init ::
  "(kwargs \<Rightarrow> py_error + 'b) \<Rightarrow> py_value option \<Rightarrow> kwargs \<Rightarrow> py_error + 'b layer" where
  "init base_init arg kw =
     (case typechecked_float (case arg of None \<Rightarrow> Num (PyFloat 0.5) | Some v \<Rightarrow> v) of
        Inl e \<Rightarrow> Inl e
      | Inr p \<Rightarrow>
          (case base_init kw of
             Inl e \<Rightarrow> Inl e
           | Inr b \<Rightarrow> Inr \<lparr>survival_probability = p, base = b\<rparr>))"

text \<open>\<open>StochasticDepth.get_config\<close>: \<^verbatim>\<open>{**base_config, **config}\<close>, the right operand winning.\<close>

definition get_config :: "('b \<Rightarrow> kwargs) \<Rightarrow> 'b layer \<Rightarrow> kwargs" where
  "get_config base_get_config self =
     (let base_config = base_get_config (base self);
          config = [''survival_probability'' \<mapsto> Num (survival_probability self)]
      in base_config ++ config)"

text \<open>
  The host rebuilds a layer from an exported configuration with \<^verbatim>\<open>cls(**config)\<close>: the entry
  \<open>survival_probability\<close>, when present, is bound to the parameter of that name and every
  other entry goes to \<open>**kwargs\<close>.
\<close>

definition from_config :: "(kwargs \<Rightarrow> py_error + 'b) \<Rightarrow> kwargs \<Rightarrow> py_error + 'b layer" where
  "from_config base_init config =
     init base_init (config ''survival_probability'')
       (config |` (- {''survival_probability''}))"

text \<open>
  \<open>StochasticDepth.compute_output_shape(self, input_shape)\<close> repeats the two checks of \<open>call\<close>
  word for word, so they are about the name \<open>x\<close>. A name is looked up among the function's
  parameters and then among the module's globals (\<open>tf\<close>, \<open>typechecked\<close>, \<open>StochasticDepth\<close>);
  a name found in neither, and that is no builtin, raises \<open>NameError\<close>.
\<close>

datatype py_object = Instance | Shapes "nat list list" | Module | Function | Class

definition lookup_name :: "(string \<times> py_object) list \<Rightarrow> string \<Rightarrow> py_error + py_object" where
  "lookup_name env n = (case map_of env n of None \<Rightarrow> Inl (NameError n) | Some v \<Rightarrow> Inr v)"

fun object_is_list :: "py_object \<Rightarrow> bool" where
  "object_is_list (Shapes ss) = True"
| "object_is_list _ = False"

fun object_len :: "py_object \<Rightarrow> nat" where
  "object_len (Shapes ss) = length ss"
| "object_len _ = 0"

definition compute_output_shape :: "'b layer \<Rightarrow> nat list list \<Rightarrow> py_error + nat list" where
  "compute_output_shape self input_shape =
     (let env = [(''self'', Instance), (''input_shape'', Shapes input_shape),
                 (''tf'', Module), (''typechecked'', Function), (''StochasticDepth'', Class)]
      in case lookup_name env ''x'' of
           Inl e \<Rightarrow> Inl e
         | Inr x \<Rightarrow>
             if \<not> object_is_list x then Inl (ValueError ''Input must be a list'')
             else if object_len x \<noteq> 2
               then Inl (ValueError ''Input must have exactly two entries'')
             else (case input_shape of
                     [] \<Rightarrow> Inl (IndexError ''list index out of range'')
                   | sh # _ \<Rightarrow> Inr sh))"

section \<open>Example objects\<close>

text \<open>
  A base class that keeps its keyword arguments as its configuration, a host whose \<open>+\<close>
  refuses every pair of tensors of different shape, a generator whose every sample is the
  same number, and two tensors of shape (3, 3, 1).
\<close>

definition refusing_add :: host_add where
  "refusing_add a b = Inl (InvalidArgumentError ''Incompatible shapes'')"

definition plain_base_init :: "kwargs \<Rightarrow> py_error + kwargs" where
  "plain_base_init kw = Inr kw"

definition plain_base_get_config :: "kwargs \<Rightarrow> kwargs" where
  "plain_base_get_config b = b"

definition named_base :: kwargs where
  "named_base = [''name'' \<mapsto> Str ''stochastic_depth'']"

definition layer_of :: "py_number \<Rightarrow> kwargs layer" where
  "layer_of p = \<lparr>survival_probability = p, base = named_base\<rparr>"

definition host_at :: "real \<Rightarrow> bool \<Rightarrow> host" where
  "host_at u phase = \<lparr>samples = (\<lambda>_. u), position = 0, learning_phase = phase\<rparr>"

definition ones :: tensor where
  "ones = Tensor [3, 3, 1] [1, 1, 1, 1, 1, 1, 1, 1, 1]"

definition ramp :: tensor where
  "ramp = Tensor [3, 3, 1] [1, 2, 3, 4, 5, 6, 7, 8, 9]"

section \<open>Facts about the host's operations\<close>

lemma train_phase_position [simp]:
  "train_phase training (h\<lparr>position := n\<rparr>) = train_phase training h"
  by (simp add: train_phase_def split: option.split)


lemma add_scale:
  "shape s = shape r \<Longrightarrow>
   tensor_add bc s (tensor_scale c r) =
     Inr (Tensor (shape s) (map2 (\<lambda>a b. a + c * b) (elems s) (elems r)))"
  by (auto simp: tensor_add_def tensor_scale_def zip_map2)




section \<open>Invocation on a list of two tensors\<close>

lemma call_pair:
  "call bc self (PyList [s, r]) training h =
     (if train_phase training h
      then tensor_add bc s (tensor_scale
             (if samples h (position h) \<le> num_val (survival_probability self) then 1 else 0) r)
      else tensor_add bc s (tensor_scale (num_val (survival_probability self)) r),
      h\<lparr>position := Suc (position h)\<rparr>)"
  by (simp add: call_def random_binomial_def in_train_phase_def Let_def)

text \<open>
  C1. In inference mode, on two tensors of equal shape, the layer returns the tensor of the
  shortcut's shape whose entries are \<open>shortcut + p * residual\<close>, entry by entry, where \<open>p\<close>
  is the stored survival probability; the result is the same in every state of the random
  generator.
\<close>

theorem inference_output:
  assumes "shape s = shape r"
    and "\<not> train_phase training h" and "\<not> train_phase training h'"
  shows "fst (call bc self (PyList [s, r]) training h) =
           Inr (Tensor (shape s)
                 (map2 (\<lambda>a b. a + num_val (survival_probability self) * b) (elems s) (elems r)))
         \<and> fst (call bc self (PyList [s, r]) training h') =
             fst (call bc self (PyList [s, r]) training h)"
  using assms by (simp add: call_pair add_scale)

theorem inference_output_witness:
  "shape ramp = shape ones \<and> \<not> train_phase (Some False) (host_at (1/2) True)
   \<and> \<not> train_phase (Some False) (host_at 0 True)
   \<and> fst (call refusing_add (layer_of (PyFloat (7/10))) (PyList [ramp, ones]) (Some False)
            (host_at (1/2) True)) =
       Inr (Tensor [3, 3, 1] [17/10, 27/10, 37/10, 47/10, 57/10, 67/10, 77/10, 87/10, 97/10])
   \<and> fst (call refusing_add (layer_of (PyFloat (7/10))) (PyList [ramp, ones]) (Some False)
            (host_at 0 True)) =
       fst (call refusing_add (layer_of (PyFloat (7/10))) (PyList [ramp, ones]) (Some False)
            (host_at (1/2) True))"
  using inference_output [where s = ramp and r = ones and training = "Some False"
      and h = "host_at (1/2) True" and h' = "host_at 0 True" and bc = refusing_add
      and self = "layer_of (PyFloat (7/10))"]
  by (simp add: ramp_def ones_def train_phase_def host_at_def layer_of_def)



section \<open>Input validation\<close>

lemma call_not_list:
  "\<not> isinstance_list x \<Longrightarrow>
   call bc self x training h = (Inl (ValueError ''Input must be a list''), h)"
  by (simp add: call_def)

lemma call_wrong_length:
  "isinstance_list x \<Longrightarrow> length (items x) \<noteq> 2 \<Longrightarrow>
   call bc self x training h = (Inl (ValueError ''Input must have exactly two entries''), h)"
  by (simp add: call_def)

lemma call_pair_returns:
  "shape s = shape r \<Longrightarrow> \<exists>t. fst (call bc self (PyList [s, r]) training h) = Inr t"
  by (simp add: call_pair add_scale)

text \<open>
  C3, as the code has it. An input that is not a Python list (one tensor, or a tuple, also a
  tuple of two tensors of equal shape) raises \<open>ValueError\<close> with \<open>Input must be a list\<close>; a
  list whose length is not two raises \<open>ValueError\<close> with
  \<open>Input must have exactly two entries\<close>; in both cases the host state is untouched. A list
  of two tensors of equal shape raises nothing: the invocation returns a tensor.
\<close>

theorem input_validation:
  "(\<not> isinstance_list x \<longrightarrow>
      call bc self x training h = (Inl (ValueError ''Input must be a list''), h))
   \<and> (isinstance_list x \<and> length (items x) \<noteq> 2 \<longrightarrow>
      call bc self x training h = (Inl (ValueError ''Input must have exactly two entries''), h))
   \<and> (\<forall>s r. x = PyList [s, r] \<and> shape s = shape r \<longrightarrow>
      (\<exists>t. fst (call bc self x training h) = Inr t))"
  by (simp add: call_not_list call_wrong_length call_pair_returns)

theorem input_validation_witness:
  "fst (call refusing_add (layer_of (PyFloat (1/2))) (Single ones) None (host_at (1/2) True)) =
     Inl (ValueError ''Input must be a list'')
   \<and> fst (call refusing_add (layer_of (PyFloat (1/2))) (PyList [ones, ones, ones]) None
            (host_at (1/2) True)) =
     Inl (ValueError ''Input must have exactly two entries'')
   \<and> shape ramp = shape ones
   \<and> (\<exists>t. fst (call refusing_add (layer_of (PyFloat (1/2))) (PyList [ramp, ones]) None
                 (host_at (1/2) True)) = Inr t)"
  using input_validation [where x = "Single ones" and self = "layer_of (PyFloat (1/2))"
      and training = None and h = "host_at (1/2) True" and bc = refusing_add]
    input_validation [where x = "PyList [ones, ones, ones]" and self = "layer_of (PyFloat (1/2))"
      and training = None and h = "host_at (1/2) True" and bc = refusing_add]
    input_validation [where x = "PyList [ramp, ones]" and self = "layer_of (PyFloat (1/2))"
      and training = None and h = "host_at (1/2) True" and bc = refusing_add]
  by (simp add: ramp_def ones_def)

text \<open>
  A tuple of two tensors of equal shape is a two-element sequence, and it is rejected; one
  tensor is rejected by the list check, not by the check of the number of entries.
\<close>

theorem tuple_rejected:
  "shape ramp = shape ones
   \<and> fst (call refusing_add (layer_of (PyFloat (1/2))) (PyTuple [ramp, ones]) (Some False)
            (host_at (1/2) False)) =
     Inl (ValueError ''Input must be a list'')
   \<and> fst (call refusing_add (layer_of (PyFloat (1/2))) (Single ones) (Some False)
            (host_at (1/2) False)) \<noteq>
     Inl (ValueError ''Input must have exactly two entries'')"
  by (simp add: call_def ramp_def ones_def)

section \<open>Effect on the host state\<close>

text \<open>
  C4, as the code has it. The Bernoulli variable is drawn before the mode is selected, so an
  invocation on a list of two entries advances the generator by exactly one sample in
  training and in inference mode alike, and changes nothing else of the host state; an
  invocation rejected by the input checks leaves the host state as it was.
\<close>

theorem draw_in_every_mode:
  "snd (call bc self x training h) =
     (if isinstance_list x \<and> length (items x) = 2
      then h\<lparr>position := Suc (position h)\<rparr> else h)"
  by (simp add: call_def random_binomial_def Let_def)

theorem draw_in_every_mode_witness:
  "snd (call refusing_add (layer_of (PyFloat (1/2))) (PyList [ramp, ones]) (Some True)
          (host_at (1/2) False)) =
     \<lparr>samples = samples (host_at (1/2) False), position = 1, learning_phase = False\<rparr>
   \<and> snd (call refusing_add (layer_of (PyFloat (1/2))) (PyList [ramp, ones]) (Some False)
            (host_at (1/2) False)) =
     \<lparr>samples = samples (host_at (1/2) False), position = 1, learning_phase = False\<rparr>
   \<and> snd (call refusing_add (layer_of (PyFloat (1/2))) (PyList [ones]) (Some True)
            (host_at (1/2) False)) =
     host_at (1/2) False"
  using draw_in_every_mode [where self = "layer_of (PyFloat (1/2))" and x = "PyList [ramp, ones]"
      and training = "Some True" and h = "host_at (1/2) False" and bc = refusing_add]
    draw_in_every_mode [where self = "layer_of (PyFloat (1/2))" and x = "PyList [ramp, ones]"
      and training = "Some False" and h = "host_at (1/2) False" and bc = refusing_add]
    draw_in_every_mode [where self = "layer_of (PyFloat (1/2))" and x = "PyList [ones]"
      and training = "Some True" and h = "host_at (1/2) False" and bc = refusing_add]
  by (simp add: host_at_def)

text \<open>
  An invocation in inference mode, from a generator at position 0, leaves it at position 1.
\<close>

theorem inference_consumes_draw:
  "\<not> train_phase (Some False) (host_at (1/2) False)
   \<and> position (host_at (1/2) False) = 0
   \<and> position (snd (call refusing_add (layer_of (PyFloat (1/2))) (PyList [ramp, ones])
                      (Some False) (host_at (1/2) False))) = 1"
  by (simp add: call_pair train_phase_def host_at_def)

section \<open>The extreme survival probabilities\<close>

text \<open>
  C6. With survival probability 1, on two tensors of equal shape and a generator whose
  samples lie in the unit interval, the layer returns the entrywise sum of shortcut and
  residual, whatever the training flag and the learning phase are.
\<close>

theorem always_kept:
  assumes "num_val (survival_probability self) = 1"
    and "shape s = shape r" and "valid_samples h"
  shows "fst (call bc self (PyList [s, r]) training h) =
           Inr (Tensor (shape s) (map2 (\<lambda>u v. u + v) (elems s) (elems r)))"
proof -
  from assms(3) have "samples h (position h) \<le> 1"
    by (simp add: valid_samples_def less_imp_le)
  with assms(1,2) show ?thesis
    by (simp add: call_pair add_scale)
qed

theorem always_kept_witness:
  "num_val (survival_probability (layer_of (PyFloat 1))) = 1
   \<and> shape ramp = shape ones \<and> valid_samples (host_at (1/2) False)
   \<and> fst (call refusing_add (layer_of (PyFloat 1)) (PyList [ramp, ones]) (Some True)
            (host_at (1/2) False)) =
       Inr (Tensor [3, 3, 1] [2, 3, 4, 5, 6, 7, 8, 9, 10])
   \<and> fst (call refusing_add (layer_of (PyFloat 1)) (PyList [ramp, ones]) (Some False)
            (host_at (1/2) False)) =
       Inr (Tensor [3, 3, 1] [2, 3, 4, 5, 6, 7, 8, 9, 10])"
  using always_kept [where self = "layer_of (PyFloat 1)" and s = ramp and r = ones
      and h = "host_at (1/2) False" and training = "Some True" and bc = refusing_add]
    always_kept [where self = "layer_of (PyFloat 1)" and s = ramp and r = ones
      and h = "host_at (1/2) False" and training = "Some False" and bc = refusing_add]
  by (simp add: layer_of_def ramp_def ones_def valid_samples_def host_at_def)




section \<open>Output shape\<close>

lemma call_output_shape:
  "shape s = shape r \<Longrightarrow>
   \<exists>t. fst (call bc self (PyList [s, r]) training h) = Inr t \<and> shape t = shape s"
  by (simp add: call_pair add_scale)

text \<open>
  C8. The tensor returned by \<open>call\<close> has the shape of the shortcut (\<open>call_output_shape\<close>).
  \<open>compute_output_shape\<close> does not return the first input shape: its checks name \<open>x\<close>, which
  is not bound in that method, so on the shapes (3, 3, 1) and (3, 3, 1) it raises
  \<open>NameError\<close>.
\<close>

theorem compute_output_shape_name_error:
  "compute_output_shape (layer_of (PyFloat (1/2))) [[3, 3, 1], [3, 3, 1]] = Inl (NameError ''x'')"
  by (simp add: compute_output_shape_def lookup_name_def)

section \<open>Construction and configuration\<close>

text \<open>
  C9. For every float \<open>p\<close>, in or out of the unit interval, and keyword arguments that the
  base class accepts, construction succeeds and stores \<open>p\<close> unchanged; without the argument
  the stored value is 0.5.
\<close>

theorem construction:
  assumes "base_init kw = Inr b"
  shows "init base_init (Some (Num (PyFloat p))) kw =
           Inr \<lparr>survival_probability = PyFloat p, base = b\<rparr>
         \<and> init base_init None kw = Inr \<lparr>survival_probability = PyFloat 0.5, base = b\<rparr>"
  using assms by (simp add: init_def)

theorem construction_witness:
  "plain_base_init named_base = Inr named_base
   \<and> init plain_base_init (Some (Num (PyFloat (- 3)))) named_base = Inr (layer_of (PyFloat (- 3)))
   \<and> init plain_base_init (Some (Num (PyFloat (5/2)))) named_base = Inr (layer_of (PyFloat (5/2)))
   \<and> init plain_base_init None named_base = Inr (layer_of (PyFloat (1/2)))"
proof -
  have h: "plain_base_init named_base = Inr named_base"
    by (simp add: plain_base_init_def)
  show ?thesis
    using h construction [of plain_base_init named_base named_base "- 3"]
      construction [of plain_base_init named_base named_base "5/2"]
    by (simp add: layer_of_def)
qed

text \<open>
  C10, as the code has it. An argument that is neither a float nor an int (a string,
  \<open>None\<close>) is rejected with \<open>TypeError\<close> before anything else happens; a float or an int
  passes the type check and, when the base class accepts the keyword arguments, is stored
  unchanged.
\<close>

theorem type_check:
  "((\<forall>n. v \<noteq> Num n) \<longrightarrow>
      init base_init (Some v) kw =
        Inl (TypeError ''type of argument survival_probability must be either float or int''))
   \<and> (base_init kw = Inr b \<longrightarrow>
      init base_init (Some (Num n)) kw = Inr \<lparr>survival_probability = n, base = b\<rparr>)"
  by (cases v) (simp_all add: init_def)

theorem type_check_witness:
  "init plain_base_init (Some (Str ''high'')) named_base =
     Inl (TypeError ''type of argument survival_probability must be either float or int'')
   \<and> init plain_base_init (Some (Num (PyFloat (1/4)))) named_base = Inr (layer_of (PyFloat (1/4)))"
  using type_check [of "Str ''high''" plain_base_init named_base named_base "PyFloat (1/4)"]
  by (simp add: plain_base_init_def layer_of_def)

text \<open>The integer 1 is accepted and stored as it is.\<close>

theorem int_accepted:
  "init plain_base_init (Some (Num (PyInt 1))) named_base = Inr (layer_of (PyInt 1))"
  by (simp add: init_def plain_base_init_def layer_of_def)

lemma get_config_key:
  "get_config g self ''survival_probability'' = Some (Num (survival_probability self))"
  by (simp add: get_config_def)

lemma get_config_other:
  "k \<noteq> ''survival_probability'' \<Longrightarrow> get_config g self k = g (base self) k"
  by (simp add: get_config_def map_add_def)

lemma get_config_rest:
  "get_config g self |` (- {''survival_probability''}) =
   g (base self) |` (- {''survival_probability''})"
  by (rule ext) (simp add: restrict_map_def get_config_other)

lemma named_base_rest: "named_base |` (- {''survival_probability''}) = named_base"
  by (rule ext) (simp add: restrict_map_def named_base_def)

lemma init_stores:
  "init base_init (Some (Num p)) kw = Inr self \<Longrightarrow> survival_probability self = p"
  by (auto simp: init_def split: sum.splits)

text \<open>
  C5. Let a layer be constructed with survival probability \<open>p\<close>. Its exported
  configuration maps \<open>survival_probability\<close> to \<open>p\<close> and agrees with the base-layer
  configuration on every other key. When the base class accepts its own part of the
  configuration, the layer rebuilt from the export has survival probability \<open>p\<close>.
\<close>

theorem config_round_trip:
  assumes "init base_init (Some (Num p)) kw = Inr self"
    and "base_init (base_get_config (base self) |` (- {''survival_probability''})) = Inr b"
  shows "get_config base_get_config self ''survival_probability'' = Some (Num p)
         \<and> (\<forall>k. k \<noteq> ''survival_probability'' \<longrightarrow>
               get_config base_get_config self k = base_get_config (base self) k)
         \<and> from_config base_init (get_config base_get_config self) =
             Inr \<lparr>survival_probability = p, base = b\<rparr>"
proof -
  from assms(1) have "survival_probability self = p"
    by (rule init_stores)
  with assms(2) show ?thesis
    by (simp add: get_config_key get_config_other get_config_rest from_config_def init_def)
qed

theorem config_round_trip_witness:
  "init plain_base_init (Some (Num (PyFloat (7/10)))) named_base = Inr (layer_of (PyFloat (7/10)))
   \<and> plain_base_init (plain_base_get_config (base (layer_of (PyFloat (7/10))))
       |` (- {''survival_probability''})) = Inr named_base
   \<and> get_config plain_base_get_config (layer_of (PyFloat (7/10))) ''survival_probability'' =
       Some (Num (PyFloat (7/10)))
   \<and> get_config plain_base_get_config (layer_of (PyFloat (7/10))) ''name'' =
       Some (Str ''stochastic_depth'')
   \<and> from_config plain_base_init (get_config plain_base_get_config (layer_of (PyFloat (7/10)))) =
       Inr (layer_of (PyFloat (7/10)))"
proof -
  have c: "init plain_base_init (Some (Num (PyFloat (7/10)))) named_base =
             Inr (layer_of (PyFloat (7/10)))"
    by (simp add: init_def plain_base_init_def layer_of_def)
  have h: "plain_base_init (plain_base_get_config (base (layer_of (PyFloat (7/10))))
       |` (- {''survival_probability''})) = Inr named_base"
    by (simp add: plain_base_init_def plain_base_get_config_def layer_of_def named_base_rest)
  show ?thesis
    using c h config_round_trip [of plain_base_init "PyFloat (7/10)" named_base
        "layer_of (PyFloat (7/10))" plain_base_get_config named_base]
    by (simp add: layer_of_def plain_base_get_config_def named_base_def)
qed

end
